theory Spec2Isabelle
  imports Complex_Main
begin

section \<open>Data model (src/types.ts)\<close>

text \<open>
  The TypeScript type \<open>number\<close> is modelled as \<^typ>\<open>real\<close>: the arithmetic of the
  program is read as exact arithmetic, without the rounding of IEEE doubles. NaN and
  the infinities are not modelled: the input widget turns an unparsable entry into 0
  before it reaches the handlers, and an entry too large for a double, which the widget
  passes on as \<open>Infinity\<close>, is outside the model. An optional field \<open>f?: number\<close> is a \<^typ>\<open>real option\<close>, with
  \<open>None\<close> for \<open>undefined\<close>.
\<close>

datatype CalculationMode = RATE | AMOUNT

datatype PeriodInputMode = DURATION | RANGE

record CalculationInputs =
  mode :: CalculationMode
  periodInputMode :: PeriodInputMode
  periodAmount :: real
  totalRepairCost :: real
  accumulationRate :: real
  durationMonths :: real
  startYear :: "real option"
  endYear :: "real option"
  totalComplexArea :: real
  householdArea :: real

record CalculationResult =
  monthlyTotalTarget :: real
  monthlyRatePerSqm :: real
  householdMonthlyFee :: real
  periodTargetAmount :: real

section \<open>Fee derivation (src/App.tsx, calculate)\<close>

text \<open>
  \<open>calculate\<close> reads the input state and calls \<open>setResult\<close> once on every path; the
  model returns the value handed to \<open>setResult\<close>, \<open>None\<close> for \<open>null\<close>.
  \<open>periodTargetAmountOf\<close> is the branch on the mode (lines 144 to 160), where
  \<open>None\<close> is the early \<open>setResult(null); return\<close>.
\<close>

definition periodTargetAmountOf :: "CalculationInputs \<Rightarrow> real option" where
  "periodTargetAmountOf inputs =
     (if mode inputs = RATE then
        (if totalRepairCost inputs \<le> 0 \<or> accumulationRate inputs \<le> 0 then None
         else Some (totalRepairCost inputs * (accumulationRate inputs / 100)))
      else
        (if periodAmount inputs \<le> 0 then None
         else Some (periodAmount inputs)))"

definition calculate :: "CalculationInputs \<Rightarrow> CalculationResult option" where
  "calculate inputs =
     (if durationMonths inputs \<le> 0 \<or> totalComplexArea inputs \<le> 0 \<or> householdArea inputs \<le> 0
      then None
      else
        (case periodTargetAmountOf inputs of
           None \<Rightarrow> None
         | Some pta \<Rightarrow>
             (let mtt = pta / durationMonths inputs;
                  mrs = mtt / totalComplexArea inputs;
                  hmf = mrs * householdArea inputs
              in Some \<lparr> monthlyTotalTarget = mtt,
                        monthlyRatePerSqm = mrs,
                        householdMonthlyFee = hmf,
                        periodTargetAmount = pta \<rparr>)))"

text \<open>The worked example of the specification (RATE mode), and its AMOUNT counterpart.\<close>

definition rateExample :: CalculationInputs where
  "rateExample =
     \<lparr> mode = RATE, periodInputMode = RANGE, periodAmount = 0,
       totalRepairCost = 10000000000, accumulationRate = 20, durationMonths = 60,
       startYear = Some 2025, endYear = Some 2030,
       totalComplexArea = 150000, householdArea = 849 / 10 \<rparr>"

definition amountExample :: CalculationInputs where
  "amountExample = rateExample \<lparr> mode := AMOUNT, periodAmount := 2000000000 \<rparr>"

section \<open>Period reconciliation (src/App.tsx, handleInputChange and handlePeriodRangeChange)\<close>

text \<open>
  \<open>a || b\<close> on an optional number: \<open>undefined\<close> and \<open>0\<close> are falsy, every other
  number of the model is truthy.
\<close>

definition orElse :: "real option \<Rightarrow> real \<Rightarrow> real" where
  "orElse v d = (case v of None \<Rightarrow> d | Some x \<Rightarrow> if x = 0 then d else x)"

text \<open>\<open>Math.round\<close>: the nearest integer, a tie going up.\<close>

definition Math_round :: "real \<Rightarrow> real" where
  "Math_round x = of_int \<lfloor>x + 1 / 2\<rfloor>"

text \<open>
  One constructor for each key of \<open>CalculationInputs\<close>, carrying the value of the
  field's type: the pair \<open>(field, value)\<close> that \<open>handleInputChange\<close> receives.
\<close>

datatype InputEdit =
    SetMode CalculationMode
  | SetPeriodInputMode PeriodInputMode
  | SetPeriodAmount real
  | SetTotalRepairCost real
  | SetAccumulationRate real
  | SetDurationMonths real
  | SetStartYear "real option"
  | SetEndYear "real option"
  | SetTotalComplexArea real
  | SetHouseholdArea real

text \<open>The object spread \<open>{ ...prev, [field]: value }\<close>.\<close>

fun assignField :: "InputEdit \<Rightarrow> CalculationInputs \<Rightarrow> CalculationInputs" where
  "assignField (SetMode v) prev = prev \<lparr> mode := v \<rparr>"
| "assignField (SetPeriodInputMode v) prev = prev \<lparr> periodInputMode := v \<rparr>"
| "assignField (SetPeriodAmount v) prev = prev \<lparr> periodAmount := v \<rparr>"
| "assignField (SetTotalRepairCost v) prev = prev \<lparr> totalRepairCost := v \<rparr>"
| "assignField (SetAccumulationRate v) prev = prev \<lparr> accumulationRate := v \<rparr>"
| "assignField (SetDurationMonths v) prev = prev \<lparr> durationMonths := v \<rparr>"
| "assignField (SetStartYear v) prev = prev \<lparr> startYear := v \<rparr>"
| "assignField (SetEndYear v) prev = prev \<lparr> endYear := v \<rparr>"
| "assignField (SetTotalComplexArea v) prev = prev \<lparr> totalComplexArea := v \<rparr>"
| "assignField (SetHouseholdArea v) prev = prev \<lparr> householdArea := v \<rparr>"

text \<open>
  The updater that \<open>handleInputChange\<close> passes to \<open>setInputs\<close>. The test
  \<open>if (newInputs.startYear)\<close> is false for \<open>undefined\<close> and for 0.
\<close>

definition syncEndYear :: "real \<Rightarrow> CalculationInputs \<Rightarrow> CalculationInputs" where
  "syncEndYear v newInputs =
     (let durationInYears = max 1 (Math_round (v / 12))
      in case startYear newInputs of
           None \<Rightarrow> newInputs
         | Some s \<Rightarrow>
             if s = 0 then newInputs
             else newInputs \<lparr> endYear := Some (s + durationInYears - 1) \<rparr>)"

definition handleInputChange :: "InputEdit \<Rightarrow> CalculationInputs \<Rightarrow> CalculationInputs" where
  "handleInputChange edit prev =
     (let newInputs = assignField edit prev
      in case edit of
           SetDurationMonths v \<Rightarrow> syncEndYear v newInputs
         | _ \<Rightarrow> newInputs)"

datatype RangeSide = Start | End

text \<open>
  Lines 59 and 60: the boundaries the handler starts from. \<open>thisYear\<close> stands for
  \<open>new Date().getFullYear()\<close>, read from the environment.
\<close>

definition currentStart :: "real \<Rightarrow> CalculationInputs \<Rightarrow> real" where
  "currentStart thisYear prev = orElse (startYear prev) thisYear"

definition currentEnd :: "real \<Rightarrow> CalculationInputs \<Rightarrow> real" where
  "currentEnd thisYear prev = orElse (endYear prev) (currentStart thisYear prev)"

text \<open>The updater that \<open>handlePeriodRangeChange\<close> passes to \<open>setInputs\<close>.\<close>

definition handlePeriodRangeChange ::
    "real \<Rightarrow> RangeSide \<Rightarrow> real \<Rightarrow> CalculationInputs \<Rightarrow> CalculationInputs" where
  "handlePeriodRangeChange thisYear side year prev =
     (let newStart0 = currentStart thisYear prev;
          newEnd0 = currentEnd thisYear prev;
          newStart = (case side of
                        Start \<Rightarrow> year
                      | End \<Rightarrow> if year < newStart0 then year else newStart0);
          newEnd = (case side of
                      Start \<Rightarrow> if year > newEnd0 then year else newEnd0
                    | End \<Rightarrow> year)
      in prev \<lparr> startYear := Some newStart,
                 endYear := Some newEnd,
                 durationMonths := (newEnd - newStart + 1) * 12 \<rparr>)"

text \<open>
  The example state after the end-year field has been cleared (the widget reports 0):
  both years are stored as 0.
\<close>

definition blankedExample :: CalculationInputs where
  "blankedExample = handlePeriodRangeChange 2026 End 0 rateExample"

section \<open>Application state and the two collaborators (src/App.tsx, src/services/geminiService.ts)\<close>

text \<open>
  The state hooks of \<open>App\<close>. The texts shown to the user are literals of the source
  and are modelled by one constructor each; \<open>AdviceReply\<close> carries the text the advice
  service returned, \<open>BothFoundMessage\<close> the household area quoted in the message.
\<close>

datatype AdviceStatus = IDLE | LOADING | SUCCESS | ERROR

datatype AdviceText = EmptyAdvice | AdviceReply string | AdviceFailedText

datatype SearchMessage =
    NoMessage
  | EnterNameMessage
  | BothFoundMessage real
  | TotalOnlyMessage
  | HouseholdOnlyMessage
  | NotFoundMessage
  | SearchErrorMessage

type_synonym Source = "string \<times> string"

record AppState =
  inputs :: CalculationInputs
  result :: "CalculationResult option"
  advice :: AdviceText
  adviceStatus :: AdviceStatus
  isSearching :: bool
  searchSources :: "Source list"
  searchMessage :: SearchMessage

text \<open>
  \<open>setInputs\<close> with an updater, followed by the effect that depends on \<open>inputs\<close>
  and calls \<open>calculate\<close> (lines 32 to 35).
\<close>

definition setInputs :: "(CalculationInputs \<Rightarrow> CalculationInputs) \<Rightarrow> AppState \<Rightarrow> AppState" where
  "setInputs f st = (let i = f (inputs st) in st \<lparr> inputs := i, result := calculate i \<rparr>)"

text \<open>What an awaited call hands back: it threw, or it returned a value.\<close>

datatype 'a Outcome = Threw | Returned 'a

text \<open>
  \<open>handleConsultAI\<close>, before and after the \<open>await\<close> of \<open>getFinancialAdvice\<close>.
\<close>

definition handleConsultAI_begin :: "AppState \<Rightarrow> AppState" where
  "handleConsultAI_begin st =
     (case result st of
        None \<Rightarrow> st
      | Some r \<Rightarrow> st \<lparr> adviceStatus := LOADING, advice := EmptyAdvice \<rparr>)"

definition handleConsultAI_resume :: "string Outcome \<Rightarrow> AppState \<Rightarrow> AppState" where
  "handleConsultAI_resume reply st =
     (case reply of
        Returned adviceText \<Rightarrow> st \<lparr> advice := AdviceReply adviceText, adviceStatus := SUCCESS \<rparr>
      | Threw \<Rightarrow> st \<lparr> advice := AdviceFailedText, adviceStatus := ERROR \<rparr>)"

text \<open>
  \<open>searchApartmentTotalArea\<close> after the call of the search service. \<open>ApiFailure\<close>
  is an exception from the client or the request (the outer \<open>catch\<close>). Otherwise the
  reply carries the sources already extracted and the parsed JSON text: \<open>None\<close> when
  parsing threw (the inner \<open>catch\<close>), else the two properties read from the object,
  each missing, a number, or a value of another type.
\<close>

datatype JsonField = JMissing | JNumber real | JOther

datatype ApiReply = ApiFailure | ApiText "(JsonField \<times> JsonField) option" "Source list"

record SearchResult =
  totalArea :: real
  householdArea_found :: real
  found :: bool
  sources :: "Source list"

definition numberField :: "JsonField \<Rightarrow> real" where
  "numberField f = (case f of JNumber x \<Rightarrow> if x \<noteq> 0 then x else 0 | _ \<Rightarrow> 0)"

definition searchApartmentTotalArea :: "ApiReply \<Rightarrow> SearchResult" where
  "searchApartmentTotalArea reply =
     (case reply of
        ApiFailure \<Rightarrow>
          \<lparr> totalArea = 0, householdArea_found = 0, found = False, sources = [] \<rparr>
      | ApiText parsed srcs \<Rightarrow>
          (case parsed of
             None \<Rightarrow>
               \<lparr> totalArea = 0, householdArea_found = 0, found = False, sources = srcs \<rparr>
           | Some (t, h) \<Rightarrow>
               \<lparr> totalArea = numberField t, householdArea_found = numberField h,
                 found = (numberField t > 0 \<or> numberField h > 0), sources = srcs \<rparr>))"

text \<open>
  \<open>handleAptSearch\<close>. \<open>blank\<close> stands for \<open>!aptName.trim()\<close>. The part after
  the \<open>await\<close> runs in the \<open>try\<close> block (lines 97 to 126), with the \<open>catch\<close> and
  the \<open>finally\<close> around it; the two calls of \<open>handleInputChange\<close> go through
  \<open>setInputs\<close>.
\<close>

definition handleAptSearch_begin :: "bool \<Rightarrow> AppState \<Rightarrow> AppState" where
  "handleAptSearch_begin blank st =
     (if blank then st \<lparr> searchMessage := EnterNameMessage \<rparr>
      else st \<lparr> isSearching := True, searchMessage := NoMessage, searchSources := [] \<rparr>)"

definition fillTotalArea :: "SearchResult \<Rightarrow> AppState \<Rightarrow> AppState" where
  "fillTotalArea r st =
     (if found r \<and> totalArea r > 0
      then setInputs (handleInputChange (SetTotalComplexArea (totalArea r))) st
      else st)"

definition fillHouseholdArea :: "SearchResult \<Rightarrow> AppState \<Rightarrow> AppState" where
  "fillHouseholdArea r st =
     (if found r \<and> householdArea_found r > 0
      then setInputs (handleInputChange (SetHouseholdArea (householdArea_found r))) st
      else st)"

definition successCount :: "SearchResult \<Rightarrow> nat" where
  "successCount r =
     (if found r
      then (if totalArea r > 0 then 1 else 0) + (if householdArea_found r > 0 then 1 else 0)
      else 0)"

definition searchOutcomeMessage :: "SearchResult \<Rightarrow> SearchMessage" where
  "searchOutcomeMessage r =
     (if successCount r = 2 then BothFoundMessage (householdArea_found r)
      else if successCount r = 1 then
        (if totalArea r > 0 then TotalOnlyMessage else HouseholdOnlyMessage)
      else NotFoundMessage)"

definition handleAptSearch_resume :: "SearchResult Outcome \<Rightarrow> AppState \<Rightarrow> AppState" where
  "handleAptSearch_resume reply st =
     (let st' =
        (case reply of
           Returned r \<Rightarrow>
             (fillHouseholdArea r (fillTotalArea r (st \<lparr> searchSources := sources r \<rparr>)))
               \<lparr> searchMessage := searchOutcomeMessage r \<rparr>
         | Threw \<Rightarrow> st \<lparr> searchMessage := SearchErrorMessage \<rparr>)
      in st' \<lparr> isSearching := False \<rparr>)"

text \<open>A state of the application on the worked example, and a reply of the area lookup.\<close>

definition exampleState :: AppState where
  "exampleState =
     \<lparr> inputs = rateExample, result = calculate rateExample,
       advice = EmptyAdvice, adviceStatus = IDLE,
       isSearching = True, searchSources = [], searchMessage = NoMessage \<rparr>"

definition foundReply :: SearchResult where
  "foundReply =
     \<lparr> totalArea = 200000, householdArea_found = 59, found = True, sources = [] \<rparr>"

section \<open>Derivation: results\<close>

lemma calculate_Some:
  assumes "durationMonths inp > 0" and "totalComplexArea inp > 0"
    and "householdArea inp > 0" and "periodTargetAmountOf inp = Some pta"
  shows "calculate inp =
           Some \<lparr> monthlyTotalTarget = pta / durationMonths inp,
                  monthlyRatePerSqm = pta / durationMonths inp / totalComplexArea inp,
                  householdMonthlyFee =
                    pta / durationMonths inp / totalComplexArea inp * householdArea inp,
                  periodTargetAmount = pta \<rparr>"
  using assms by (simp add: calculate_def Let_def not_le)

lemma periodTargetAmountOf_RATE:
  assumes "mode inp = RATE" and "totalRepairCost inp > 0" and "accumulationRate inp > 0"
  shows "periodTargetAmountOf inp =
           Some (totalRepairCost inp * (accumulationRate inp / 100))"
  using assms by (simp add: periodTargetAmountOf_def not_le)

lemma periodTargetAmountOf_AMOUNT:
  assumes "mode inp = AMOUNT" and "periodAmount inp > 0"
  shows "periodTargetAmountOf inp = Some (periodAmount inp)"
  using assms by (simp add: periodTargetAmountOf_def not_le)

lemma periodTargetAmountOf_ok:
  assumes "mode inp = RATE \<longrightarrow> totalRepairCost inp > 0 \<and> accumulationRate inp > 0"
    and "mode inp = AMOUNT \<longrightarrow> periodAmount inp > 0"
  shows "periodTargetAmountOf inp =
           Some (case mode inp of
                   RATE \<Rightarrow> totalRepairCost inp * (accumulationRate inp / 100)
                 | AMOUNT \<Rightarrow> periodAmount inp)"
  using assms periodTargetAmountOf_RATE [of inp] periodTargetAmountOf_AMOUNT [of inp]
  by (cases "mode inp") simp_all

text \<open>
  Claim C1. Whenever the preconditions hold (duration, total area and household area
  positive, and the cost fields of the selected mode positive), the derivation returns a
  result whose period target is \<open>totalRepairCost * (accumulationRate / 100)\<close> in RATE
  mode and \<open>periodAmount\<close> in AMOUNT mode, whose monthly total is the period target
  divided by the duration, whose rate per square metre is the monthly total divided by
  the total area, and whose household fee is that rate times the household area.
\<close>

theorem calculate_formula:
  assumes "durationMonths inp > 0" and "totalComplexArea inp > 0"
    and "householdArea inp > 0"
    and "mode inp = RATE \<longrightarrow> totalRepairCost inp > 0 \<and> accumulationRate inp > 0"
    and "mode inp = AMOUNT \<longrightarrow> periodAmount inp > 0"
  shows "\<exists>r. calculate inp = Some r
           \<and> periodTargetAmount r =
               (case mode inp of
                  RATE \<Rightarrow> totalRepairCost inp * (accumulationRate inp / 100)
                | AMOUNT \<Rightarrow> periodAmount inp)
           \<and> monthlyTotalTarget r = periodTargetAmount r / durationMonths inp
           \<and> monthlyRatePerSqm r = monthlyTotalTarget r / totalComplexArea inp
           \<and> householdMonthlyFee r = monthlyRatePerSqm r * householdArea inp"
proof -
  define pta where
    "pta = (case mode inp of
              RATE \<Rightarrow> totalRepairCost inp * (accumulationRate inp / 100)
            | AMOUNT \<Rightarrow> periodAmount inp)"
  have "periodTargetAmountOf inp = Some pta"
    unfolding pta_def using assms(4,5) by (rule periodTargetAmountOf_ok)
  from calculate_Some [OF assms(1-3) this] show ?thesis
    unfolding pta_def [symmetric] by simp
qed

text \<open>
  The example of the specification: a total repair cost of 10,000,000,000 at a rate of
  20 over 60 months, on 150,000 square metres with a household of 84.9, gives a period
  target of 2,000,000,000, a monthly total of 100,000,000/3, a rate of 2000/9 per square
  metre and a household fee of 56,600/3 (about 18,866.67).
\<close>

theorem calculate_formula_witness:
  "\<exists>r. calculate rateExample = Some r
        \<and> periodTargetAmount r = 2000000000
        \<and> monthlyTotalTarget r = 100000000 / 3
        \<and> monthlyRatePerSqm r = 2000 / 9
        \<and> householdMonthlyFee r = 56600 / 3"
proof -
  from calculate_formula [of rateExample]
  obtain r where r: "calculate rateExample = Some r"
      "periodTargetAmount r = totalRepairCost rateExample * (accumulationRate rateExample / 100)"
      "monthlyTotalTarget r = periodTargetAmount r / durationMonths rateExample"
      "monthlyRatePerSqm r = monthlyTotalTarget r / totalComplexArea rateExample"
      "householdMonthlyFee r = monthlyRatePerSqm r * householdArea rateExample"
    by (auto simp add: rateExample_def)
  show ?thesis
    using r by (simp add: rateExample_def)
qed

text \<open>
  Claim C2. The derivation returns no result exactly when one of the preconditions
  fails: the duration, the total area or the household area is not positive, or, in RATE
  mode, the total repair cost or the rate is not positive, or, in AMOUNT mode, the period
  amount is not positive. One failing check is enough, whatever the other fields hold.
  Every failing check gives the same absent result, so the order of the checks does not
  show in the value returned.
\<close>

theorem calculate_absent:
  "calculate inp = None \<longleftrightarrow>
     (durationMonths inp \<le> 0 \<or> totalComplexArea inp \<le> 0 \<or> householdArea inp \<le> 0
      \<or> (mode inp = RATE \<and> (totalRepairCost inp \<le> 0 \<or> accumulationRate inp \<le> 0))
      \<or> (mode inp = AMOUNT \<and> periodAmount inp \<le> 0))"
  by (cases "mode inp")
     (simp_all add: calculate_def periodTargetAmountOf_def Let_def split: option.splits)

theorem calculate_absent_witness:
  "calculate (rateExample \<lparr> householdArea := 0 \<rparr>) = None
   \<and> calculate (rateExample \<lparr> accumulationRate := 0 \<rparr>) = None
   \<and> calculate (amountExample \<lparr> periodAmount := 0 \<rparr>) = None
   \<and> calculate (amountExample \<lparr> durationMonths := 0 \<rparr>) = None"
  using calculate_absent [of "rateExample \<lparr> householdArea := 0 \<rparr>"]
    calculate_absent [of "rateExample \<lparr> accumulationRate := 0 \<rparr>"]
    calculate_absent [of "amountExample \<lparr> periodAmount := 0 \<rparr>"]
    calculate_absent [of "amountExample \<lparr> durationMonths := 0 \<rparr>"]
  by (simp add: rateExample_def amountExample_def)

section \<open>Range edits\<close>

lemma range_edit_Start:
  "handlePeriodRangeChange thisYear Start year prev =
     prev \<lparr> startYear := Some year,
            endYear := Some (max year (currentEnd thisYear prev)),
            durationMonths := (max year (currentEnd thisYear prev) - year + 1) * 12 \<rparr>"
  by (simp add: handlePeriodRangeChange_def Let_def max_def)

lemma range_edit_End:
  "handlePeriodRangeChange thisYear End year prev =
     prev \<lparr> startYear := Some (min year (currentStart thisYear prev)),
            endYear := Some year,
            durationMonths := (year - min year (currentStart thisYear prev) + 1) * 12 \<rparr>"
  by (simp add: handlePeriodRangeChange_def Let_def min_def)

lemma currentStart_durationMonths:
  "currentStart thisYear (prev \<lparr> durationMonths := d \<rparr>) = currentStart thisYear prev"
  by (simp add: currentStart_def)

lemma currentEnd_durationMonths:
  "currentEnd thisYear (prev \<lparr> durationMonths := d \<rparr>) = currentEnd thisYear prev"
  by (simp add: currentEnd_def currentStart_def)

lemma currentEnd_set:
  assumes "endYear prev = Some e" and "e \<noteq> 0"
  shows "currentEnd thisYear prev = e"
  using assms by (simp add: currentEnd_def orElse_def)

lemma currentStart_set:
  assumes "startYear prev = Some b" and "b \<noteq> 0"
  shows "currentStart thisYear prev = b"
  using assms by (simp add: currentStart_def orElse_def)

text \<open>
  Claim C3. After a range edit on either side both years are set, and the duration is
  \<open>(endYear - startYear + 1) * 12\<close> of the years the edit leaves, whatever the
  duration was before: the duration held by the previous state has no influence on the
  new state.
\<close>

theorem range_edit_duration:
  "\<exists>b e. startYear (handlePeriodRangeChange thisYear side year prev) = Some b
         \<and> endYear (handlePeriodRangeChange thisYear side year prev) = Some e
         \<and> durationMonths (handlePeriodRangeChange thisYear side year prev) = (e - b + 1) * 12
         \<and> handlePeriodRangeChange thisYear side year (prev \<lparr> durationMonths := d \<rparr>)
             = handlePeriodRangeChange thisYear side year prev"
  by (cases side)
     (simp_all add: range_edit_Start range_edit_End
        currentStart_durationMonths currentEnd_durationMonths)

text \<open>
  The example of the specification: with the start year 2025, entering the end year 2030
  gives 72 months, here from a state that held 60 months.
\<close>

theorem range_edit_duration_witness:
  "startYear (handlePeriodRangeChange 2026 End 2030 rateExample) = Some 2025
   \<and> endYear (handlePeriodRangeChange 2026 End 2030 rateExample) = Some 2030
   \<and> durationMonths (handlePeriodRangeChange 2026 End 2030 rateExample) = 72"
  using range_edit_duration [of 2026 End 2030 rateExample 60]
  by (auto simp add: range_edit_End rateExample_def currentStart_def orElse_def)

text \<open>
  Claim C4, as the code has it. After a range edit on either side the start year is at
  most the end year, and the edited side holds the year that was entered: no edit is
  refused. The year the handler compares with is not always the stored one: it is the
  current year as the handler reads it (\<open>currentStart\<close>, \<open>currentEnd\<close>), which is
  the stored year when that is set and not 0, and otherwise the fallback, the calendar
  year for the start and the start so read for the end. A start year entered above that
  current end year becomes the end year too, and the duration is 12; an end year entered
  below that current start year becomes the start year too, and the duration is 12.
\<close>

theorem range_edit_ordered:
  "\<exists>b e. startYear (handlePeriodRangeChange thisYear side year prev) = Some b
         \<and> endYear (handlePeriodRangeChange thisYear side year prev) = Some e
         \<and> b \<le> e
         \<and> (side = Start \<longrightarrow> b = year)
         \<and> (side = End \<longrightarrow> e = year)
         \<and> (side = Start \<and> year > currentEnd thisYear prev \<longrightarrow>
                e = year \<and> durationMonths (handlePeriodRangeChange thisYear side year prev) = 12)
         \<and> (side = End \<and> year < currentStart thisYear prev \<longrightarrow>
                b = year \<and> durationMonths (handlePeriodRangeChange thisYear side year prev) = 12)
         \<and> (\<forall>x. endYear prev = Some x \<and> x \<noteq> 0 \<longrightarrow> currentEnd thisYear prev = x)
         \<and> (\<forall>x. startYear prev = Some x \<and> x \<noteq> 0 \<longrightarrow> currentStart thisYear prev = x)"
  by (cases side)
     (simp_all add: range_edit_Start range_edit_End currentEnd_set currentStart_set)

text \<open>
  The example of the specification: from the years 2025 to 2030, entering the start year
  2032 moves the end year to 2032 and the duration to 12 months; entering the end year
  2020 moves the start year to 2020.
\<close>

theorem range_edit_ordered_witness:
  "startYear (handlePeriodRangeChange 2026 Start 2032 rateExample) = Some 2032
   \<and> endYear (handlePeriodRangeChange 2026 Start 2032 rateExample) = Some 2032
   \<and> durationMonths (handlePeriodRangeChange 2026 Start 2032 rateExample) = 12
   \<and> startYear (handlePeriodRangeChange 2026 End 2020 rateExample) = Some 2020
   \<and> endYear (handlePeriodRangeChange 2026 End 2020 rateExample) = Some 2020
   \<and> durationMonths (handlePeriodRangeChange 2026 End 2020 rateExample) = 12"
proof -
  have e: "currentEnd 2026 rateExample = 2030" and b: "currentStart 2026 rateExample = 2025"
    by (simp_all add: currentEnd_def currentStart_def orElse_def rateExample_def)
  from range_edit_ordered [of 2026 Start 2032 rateExample]
  have "startYear (handlePeriodRangeChange 2026 Start 2032 rateExample) = Some 2032
      \<and> endYear (handlePeriodRangeChange 2026 Start 2032 rateExample) = Some 2032
      \<and> durationMonths (handlePeriodRangeChange 2026 Start 2032 rateExample) = 12"
    by (auto simp add: e)
  moreover from range_edit_ordered [of 2026 End 2020 rateExample]
  have "startYear (handlePeriodRangeChange 2026 End 2020 rateExample) = Some 2020
      \<and> endYear (handlePeriodRangeChange 2026 End 2020 rateExample) = Some 2020
      \<and> durationMonths (handlePeriodRangeChange 2026 End 2020 rateExample) = 12"
    by (auto simp add: b)
  ultimately show ?thesis by simp
qed

text \<open>
  The claim as the specification states it, with the stored end year as the year to
  compare with, fails once a year field has been cleared. Clearing the end year of the
  example stores 0 for both years. Entering the start year 2025 then passes the stored
  end year 0, but the end year becomes the calendar year 2026, not 2025, and the
  duration is 24 months, not 12.
\<close>

theorem range_edit_stored_zero_counterexample:
  "startYear blankedExample = Some 0
   \<and> endYear blankedExample = Some 0
   \<and> durationMonths blankedExample = 12
   \<and> startYear (handlePeriodRangeChange 2026 Start 2025 blankedExample) = Some 2025
   \<and> endYear (handlePeriodRangeChange 2026 Start 2025 blankedExample) = Some 2026
   \<and> endYear (handlePeriodRangeChange 2026 Start 2025 blankedExample) \<noteq> Some 2025
   \<and> durationMonths (handlePeriodRangeChange 2026 Start 2025 blankedExample) = 24"
proof -
  have b: "blankedExample =
      rateExample \<lparr> startYear := Some 0, endYear := Some 0, durationMonths := 12 \<rparr>"
    by (simp add: blankedExample_def range_edit_End currentStart_def orElse_def rateExample_def)
  have c: "currentEnd 2026 blankedExample = 2026"
    by (simp add: b currentEnd_def currentStart_def orElse_def)
  have n: "handlePeriodRangeChange 2026 Start 2025 blankedExample =
      blankedExample \<lparr> startYear := Some 2025, endYear := Some 2026, durationMonths := 24 \<rparr>"
    by (simp add: range_edit_Start c)
  show ?thesis
    unfolding n by (simp add: b)
qed

lemma range_edit_cost_fields:
  "mode (handlePeriodRangeChange thisYear side year prev) = mode prev"
  "periodAmount (handlePeriodRangeChange thisYear side year prev) = periodAmount prev"
  "totalRepairCost (handlePeriodRangeChange thisYear side year prev) = totalRepairCost prev"
  "accumulationRate (handlePeriodRangeChange thisYear side year prev) = accumulationRate prev"
  "totalComplexArea (handlePeriodRangeChange thisYear side year prev) = totalComplexArea prev"
  "householdArea (handlePeriodRangeChange thisYear side year prev) = householdArea prev"
  by (simp_all add: handlePeriodRangeChange_def Let_def)

lemma range_edit_at_least_12:
  "12 \<le> durationMonths (handlePeriodRangeChange thisYear side year prev)"
  by (cases side) (simp_all add: range_edit_Start range_edit_End)

section \<open>Duration edits and mode switches\<close>

lemma duration_edit_unfold:
  "handleInputChange (SetDurationMonths v) prev =
     syncEndYear v (prev \<lparr> durationMonths := v \<rparr>)"
  by (simp add: handleInputChange_def)

lemma Math_round_years:
  "max 1 (Math_round x) = of_int (max 1 \<lfloor>x + 1 / 2\<rfloor>)"
  by (simp add: Math_round_def max_def)

text \<open>
  Claim C5. A duration edit stores the entered number of months as it is and leaves the
  start year alone. When the start year is set (and not 0, the test of the code), the
  end year becomes \<open>startYear + max 1 (round (v / 12)) - 1\<close>. Entering that end year
  again in the range view gives a duration of \<open>12 * max 1 (round (v / 12))\<close>, which
  differs from \<open>v\<close> whenever \<open>v\<close> is not a whole number of years.
\<close>

theorem duration_edit_sync:
  "durationMonths (handleInputChange (SetDurationMonths v) prev) = v
   \<and> startYear (handleInputChange (SetDurationMonths v) prev) = startYear prev
   \<and> (\<forall>b. startYear prev = Some b \<and> b \<noteq> 0 \<longrightarrow>
          endYear (handleInputChange (SetDurationMonths v) prev)
            = Some (b + max 1 (Math_round (v / 12)) - 1)
        \<and> durationMonths
            (handlePeriodRangeChange thisYear End (b + max 1 (Math_round (v / 12)) - 1)
               (handleInputChange (SetDurationMonths v) prev))
            = 12 * max 1 (Math_round (v / 12))
        \<and> (v / 12 \<notin> \<int> \<longrightarrow>
             durationMonths
               (handlePeriodRangeChange thisYear End (b + max 1 (Math_round (v / 12)) - 1)
                  (handleInputChange (SetDurationMonths v) prev))
             \<noteq> v))"
proof (intro conjI allI impI)
  show "durationMonths (handleInputChange (SetDurationMonths v) prev) = v"
    by (simp add: duration_edit_unfold syncEndYear_def Let_def split: option.splits)
  show "startYear (handleInputChange (SetDurationMonths v) prev) = startYear prev"
    by (simp add: duration_edit_unfold syncEndYear_def Let_def split: option.splits)
next
  fix b
  assume set: "startYear prev = Some b \<and> b \<noteq> 0"
  define k where "k = max 1 (Math_round (v / 12))"
  have k1: "1 \<le> k" by (simp add: k_def)
  have upd: "handleInputChange (SetDurationMonths v) prev =
      prev \<lparr> durationMonths := v, endYear := Some (b + k - 1) \<rparr>"
    using set by (simp add: duration_edit_unfold syncEndYear_def Let_def k_def)
  show "endYear (handleInputChange (SetDurationMonths v) prev)
          = Some (b + max 1 (Math_round (v / 12)) - 1)"
    by (simp add: upd k_def)
  have cs: "currentStart thisYear (handleInputChange (SetDurationMonths v) prev) = b"
    using set by (simp add: upd currentStart_def orElse_def)
  have "min (b + k - 1) b = b" using k1 by simp
  then show re: "durationMonths
            (handlePeriodRangeChange thisYear End (b + max 1 (Math_round (v / 12)) - 1)
               (handleInputChange (SetDurationMonths v) prev))
            = 12 * max 1 (Math_round (v / 12))"
    unfolding k_def [symmetric] by (simp add: range_edit_End cs)
  assume frac: "v / 12 \<notin> \<int>"
  show "durationMonths
            (handlePeriodRangeChange thisYear End (b + max 1 (Math_round (v / 12)) - 1)
               (handleInputChange (SetDurationMonths v) prev))
          \<noteq> v"
  proof
    assume "durationMonths
            (handlePeriodRangeChange thisYear End (b + max 1 (Math_round (v / 12)) - 1)
               (handleInputChange (SetDurationMonths v) prev))
          = v"
    with re have "v / 12 = max 1 (Math_round (v / 12))" by simp
    also have "\<dots> \<in> \<int>" by (simp add: Math_round_years)
    finally show False using frac by simp
  qed
qed

text \<open>
  The example of the specification: 65 months from the start year 2025 keep the duration
  65 and set the end year 2029; the years 2025 to 2029 give back 60 months, not 65.
\<close>

theorem duration_edit_sync_witness:
  "durationMonths (handleInputChange (SetDurationMonths 65) rateExample) = 65
   \<and> startYear (handleInputChange (SetDurationMonths 65) rateExample) = Some 2025
   \<and> endYear (handleInputChange (SetDurationMonths 65) rateExample) = Some 2029
   \<and> durationMonths
        (handlePeriodRangeChange 2026 End 2029
           (handleInputChange (SetDurationMonths 65) rateExample)) = 60"
proof -
  have r: "max 1 (Math_round (65 / 12)) = 5"
    by (simp add: Math_round_def)
  have b: "startYear rateExample = Some 2025 \<and> (2025::real) \<noteq> 0"
    by (simp add: rateExample_def)
  from duration_edit_sync [of 65 rateExample 2026] b show ?thesis
    by (simp add: r)
qed

text \<open>
  Claim C8. Switching the cost mode or the period-input mode assigns that one field and
  nothing else, so that switching back to the previous mode gives back the previous
  state, with every amount, rate, year and area it held.
\<close>

theorem mode_switch_assigns:
  "handleInputChange (SetMode m) prev = prev \<lparr> mode := m \<rparr>
   \<and> handleInputChange (SetPeriodInputMode p) prev = prev \<lparr> periodInputMode := p \<rparr>
   \<and> handleInputChange (SetMode (mode prev)) (handleInputChange (SetMode m) prev) = prev
   \<and> handleInputChange (SetPeriodInputMode (periodInputMode prev))
         (handleInputChange (SetPeriodInputMode p) prev) = prev"
  by (simp add: handleInputChange_def)

text \<open>
  The example of the specification: from RATE to AMOUNT and back, the total repair cost
  and the rate are the ones entered before.
\<close>

theorem mode_switch_assigns_witness:
  "handleInputChange (SetMode RATE) (handleInputChange (SetMode AMOUNT) rateExample) = rateExample
   \<and> totalRepairCost (handleInputChange (SetMode AMOUNT) rateExample) = 10000000000
   \<and> accumulationRate (handleInputChange (SetMode AMOUNT) rateExample) = 20"
proof -
  have m: "mode rateExample = RATE"
    and c: "totalRepairCost rateExample = 10000000000"
    and r: "accumulationRate rateExample = 20"
    by (simp_all add: rateExample_def)
  from mode_switch_assigns [of AMOUNT rateExample DURATION]
  have go: "handleInputChange (SetMode AMOUNT) rateExample = rateExample \<lparr> mode := AMOUNT \<rparr>"
    and return: "handleInputChange (SetMode RATE) (handleInputChange (SetMode AMOUNT) rateExample)
                   = rateExample"
    unfolding m by blast+
  show ?thesis
    unfolding return by (simp add: go c r)
qed

text \<open>
  A duration of 0 entered in the duration view is stored as it is, and the derivation
  then returns no result.
\<close>

lemma duration_zero_absent:
  "calculate (handleInputChange (SetDurationMonths 0) prev) = None"
  by (simp add: duration_edit_unfold syncEndYear_def calculate_def Let_def split: option.splits)

text \<open>
  Claim C6, as the code has it. Entering 0 for either year does not make the derivation
  fail: the handler orders the two years and recomputes a duration of at least 12
  months, so that a state whose areas and cost fields pass the checks still yields a
  result after the edit.
\<close>

theorem blank_year_still_computable:
  assumes "totalComplexArea prev > 0" and "householdArea prev > 0"
    and "mode prev = RATE \<longrightarrow> totalRepairCost prev > 0 \<and> accumulationRate prev > 0"
    and "mode prev = AMOUNT \<longrightarrow> periodAmount prev > 0"
  shows "12 \<le> durationMonths (handlePeriodRangeChange thisYear side 0 prev)
         \<and> (\<exists>r. calculate (handlePeriodRangeChange thisYear side 0 prev) = Some r)"
proof -
  let ?n = "handlePeriodRangeChange thisYear side 0 prev"
  have d: "12 \<le> durationMonths ?n" by (rule range_edit_at_least_12)
  then have d0: "durationMonths ?n > 0" by simp
  have "\<exists>pta. periodTargetAmountOf ?n = Some pta"
    using assms(3,4) periodTargetAmountOf_ok [of ?n] by (simp add: range_edit_cost_fields)
  then obtain pta where "periodTargetAmountOf ?n = Some pta" ..
  from calculate_Some [OF d0 _ _ this] assms(1,2)
  have "\<exists>r. calculate ?n = Some r" by (simp add: range_edit_cost_fields)
  with d show ?thesis by simp
qed

theorem blank_year_still_computable_witness:
  "12 \<le> durationMonths (handlePeriodRangeChange 2026 End 0 amountExample)
   \<and> (\<exists>r. calculate (handlePeriodRangeChange 2026 End 0 amountExample) = Some r)"
  using blank_year_still_computable [of amountExample 2026 End]
  by (simp add: amountExample_def rateExample_def)

text \<open>
  The claim as the specification states it fails on the example state: its areas, cost
  and rate pass the checks, and after the start year, or the end year, is set to 0 the
  derivation still returns a result (the duration is 24372 months, and 12 months).
\<close>

theorem blank_year_counterexample:
  "totalComplexArea rateExample > 0 \<and> householdArea rateExample > 0
   \<and> totalRepairCost rateExample > 0 \<and> accumulationRate rateExample > 0
   \<and> durationMonths (handlePeriodRangeChange 2026 Start 0 rateExample) = 24372
   \<and> calculate (handlePeriodRangeChange 2026 Start 0 rateExample) \<noteq> None
   \<and> durationMonths (handlePeriodRangeChange 2026 End 0 rateExample) = 12
   \<and> calculate (handlePeriodRangeChange 2026 End 0 rateExample) \<noteq> None"
  by (simp add: range_edit_Start range_edit_End currentStart_def currentEnd_def orElse_def
        calculate_def periodTargetAmountOf_def rateExample_def Let_def)

text \<open>
  Claim C9. Two states that agree on the duration and the two areas and pass the checks,
  one in AMOUNT mode whose period amount is the other's
  \<open>totalRepairCost * (accumulationRate / 100)\<close> in RATE mode, have the same result, and
  that result is present.
\<close>

theorem mode_equivalence:
  assumes "mode a = AMOUNT" and "mode b = RATE"
    and "durationMonths a = durationMonths b"
    and "totalComplexArea a = totalComplexArea b"
    and "householdArea a = householdArea b"
    and "durationMonths b > 0" and "totalComplexArea b > 0" and "householdArea b > 0"
    and "totalRepairCost b > 0" and "accumulationRate b > 0"
    and "periodAmount a = totalRepairCost b * (accumulationRate b / 100)"
  shows "calculate a = calculate b \<and> (\<exists>r. calculate b = Some r)"
proof -
  let ?pta = "totalRepairCost b * (accumulationRate b / 100)"
  have pb: "periodTargetAmountOf b = Some ?pta"
    using assms(2,9,10) by (rule periodTargetAmountOf_RATE)
  have "0 < ?pta" using assms(9,10) by simp
  then have "periodAmount a > 0" unfolding assms(11) .
  with assms(1) have "periodTargetAmountOf a = Some (periodAmount a)"
    by (rule periodTargetAmountOf_AMOUNT)
  then have pa: "periodTargetAmountOf a = Some ?pta" using assms(11) by simp
  have ca: "calculate a =
      Some \<lparr> monthlyTotalTarget = ?pta / durationMonths a,
             monthlyRatePerSqm = ?pta / durationMonths a / totalComplexArea a,
             householdMonthlyFee = ?pta / durationMonths a / totalComplexArea a * householdArea a,
             periodTargetAmount = ?pta \<rparr>"
    using assms(3-8) by (intro calculate_Some pa) simp_all
  have cb: "calculate b =
      Some \<lparr> monthlyTotalTarget = ?pta / durationMonths b,
             monthlyRatePerSqm = ?pta / durationMonths b / totalComplexArea b,
             householdMonthlyFee = ?pta / durationMonths b / totalComplexArea b * householdArea b,
             periodTargetAmount = ?pta \<rparr>"
    using assms(6-8) by (intro calculate_Some pb)
  show ?thesis
    unfolding ca cb using assms(3-5) by simp
qed

text \<open>
  The example of the specification: a period amount of 2,000,000,000 in AMOUNT mode, with
  the period and the areas of the RATE example, gives the result of the RATE example.
\<close>

theorem mode_equivalence_witness:
  "calculate amountExample = calculate rateExample
   \<and> (\<exists>r. calculate rateExample = Some r \<and> periodTargetAmount r = 2000000000)"
proof -
  from mode_equivalence [of amountExample rateExample]
  have "calculate amountExample = calculate rateExample"
    by (simp add: amountExample_def rateExample_def)
  moreover have "\<exists>r. calculate rateExample = Some r \<and> periodTargetAmount r = 2000000000"
    by (simp add: calculate_def periodTargetAmountOf_def rateExample_def Let_def)
  ultimately show ?thesis by simp
qed

text \<open>
  Claim C10, as the code has it. After a range edit the duration is at least 12 months,
  whatever numbers are entered or stored. It is a whole number of years (12 times an
  integer) when the year entered and the two current years the handler starts from are
  whole numbers; the year fields hold any number the input widget can parse, and a
  fractional year gives a duration that is not a multiple of 12.
\<close>

theorem range_edit_whole_years:
  "12 \<le> durationMonths (handlePeriodRangeChange thisYear side year prev)
   \<and> (year \<in> \<int> \<and> currentStart thisYear prev \<in> \<int> \<and> currentEnd thisYear prev \<in> \<int> \<longrightarrow>
        durationMonths (handlePeriodRangeChange thisYear side year prev) / 12 \<in> \<int>)"
proof (intro conjI impI)
  show "12 \<le> durationMonths (handlePeriodRangeChange thisYear side year prev)"
    by (rule range_edit_at_least_12)
next
  assume whole: "year \<in> \<int> \<and> currentStart thisYear prev \<in> \<int> \<and> currentEnd thisYear prev \<in> \<int>"
  then have "max year (currentEnd thisYear prev) \<in> \<int>"
    and "min year (currentStart thisYear prev) \<in> \<int>"
    by (simp_all add: max_def min_def)
  then have s: "max year (currentEnd thisYear prev) - year + 1 \<in> \<int>"
    and e: "year - min year (currentStart thisYear prev) + 1 \<in> \<int>"
    using whole by simp_all
  have ds: "durationMonths (handlePeriodRangeChange thisYear Start year prev) / 12
              = max year (currentEnd thisYear prev) - year + 1"
    and de: "durationMonths (handlePeriodRangeChange thisYear End year prev) / 12
              = year - min year (currentStart thisYear prev) + 1"
    by (simp_all add: range_edit_Start range_edit_End)
  show "durationMonths (handlePeriodRangeChange thisYear side year prev) / 12 \<in> \<int>"
  proof (cases side)
    case Start
    show ?thesis unfolding Start ds by (rule s)
  next
    case End
    show ?thesis unfolding End de by (rule e)
  qed
qed

theorem range_edit_whole_years_witness:
  "12 \<le> durationMonths (handlePeriodRangeChange 2026 Start 2027 rateExample)
   \<and> durationMonths (handlePeriodRangeChange 2026 Start 2027 rateExample) / 12 \<in> \<int>
   \<and> durationMonths (handlePeriodRangeChange 2026 Start 2027 rateExample) = 48"
proof -
  have c: "currentStart 2026 rateExample = 2025" "currentEnd 2026 rateExample = 2030"
    by (simp_all add: currentStart_def currentEnd_def orElse_def rateExample_def)
  have d: "durationMonths (handlePeriodRangeChange 2026 Start 2027 rateExample) = 48"
    by (simp add: range_edit_Start c)
  from range_edit_whole_years [of 2026 Start 2027 rateExample] show ?thesis
    by (simp add: c d)
qed

text \<open>
  The claim as the specification states it fails for a fractional year: with the end
  year 2030, the start year 2025.5 gives 66 months, which is five and a half years.
\<close>

theorem range_edit_fraction_counterexample:
  "durationMonths (handlePeriodRangeChange 2026 Start (4051 / 2) rateExample) = 66
   \<and> durationMonths (handlePeriodRangeChange 2026 Start (4051 / 2) rateExample) / 12 \<notin> \<int>"
proof -
  have c: "currentEnd 2026 rateExample = 2030"
    by (simp add: currentStart_def currentEnd_def orElse_def rateExample_def)
  have d: "durationMonths (handlePeriodRangeChange 2026 Start (4051 / 2) rateExample) = 66"
    by (simp add: range_edit_Start c)
  have "frac (11 / 2 :: real) \<noteq> 0"
    by (simp add: frac_def)
  then have "(11 / 2 :: real) \<notin> \<int>"
    by (simp add: frac_eq_0_iff)
  with d show ?thesis by simp
qed

section \<open>The collaborators and the inputs\<close>

lemma setInputs_fields:
  "inputs (setInputs f st) = f (inputs st)"
  "result (setInputs f st) = calculate (f (inputs st))"
  by (simp_all add: setInputs_def Let_def)

lemma fill_inputs:
  "inputs (fillHouseholdArea r (fillTotalArea r st)) =
     (inputs st)
       \<lparr> totalComplexArea :=
           (if found r \<and> totalArea r > 0 then totalArea r else totalComplexArea (inputs st)),
         householdArea :=
           (if found r \<and> householdArea_found r > 0 then householdArea_found r
            else householdArea (inputs st)) \<rparr>"
  by (simp add: fillHouseholdArea_def fillTotalArea_def setInputs_fields handleInputChange_def)

lemma fill_result:
  "result (fillHouseholdArea r (fillTotalArea r st)) =
     (if found r \<and> (totalArea r > 0 \<or> householdArea_found r > 0)
      then calculate (inputs (fillHouseholdArea r (fillTotalArea r st)))
      else result st)"
  by (auto simp add: fillHouseholdArea_def fillTotalArea_def setInputs_fields handleInputChange_def)

lemma resume_Returned_fields:
  "inputs (handleAptSearch_resume (Returned r) st) =
     inputs (fillHouseholdArea r (fillTotalArea r (st \<lparr> searchSources := sources r \<rparr>)))"
  "result (handleAptSearch_resume (Returned r) st) =
     result (fillHouseholdArea r (fillTotalArea r (st \<lparr> searchSources := sources r \<rparr>)))"
  by (simp_all add: handleAptSearch_resume_def Let_def)

text \<open>
  Claim C7, as the code has it. The advice collaborator is downstream only: its reply,
  text or exception, changes neither the inputs nor the result. The area lookup is a
  source of inputs: a reply with \<open>found\<close> writes each positive area into
  \<open>totalComplexArea\<close> and \<open>householdArea\<close>, no other field, and the result is
  computed again from the new inputs. A lookup that threw, failed in the service, or
  found no positive area leaves the inputs and the result as they were.
\<close>

theorem collaborator_replies:
  "inputs (handleConsultAI_resume reply st) = inputs st
   \<and> result (handleConsultAI_resume reply st) = result st
   \<and> inputs (handleAptSearch_resume Threw st) = inputs st
   \<and> result (handleAptSearch_resume Threw st) = result st
   \<and> inputs (handleAptSearch_resume (Returned (searchApartmentTotalArea ApiFailure)) st) = inputs st
   \<and> result (handleAptSearch_resume (Returned (searchApartmentTotalArea ApiFailure)) st) = result st
   \<and> (\<not> (found r \<and> (totalArea r > 0 \<or> householdArea_found r > 0)) \<longrightarrow>
        inputs (handleAptSearch_resume (Returned r) st) = inputs st
        \<and> result (handleAptSearch_resume (Returned r) st) = result st)
   \<and> inputs (handleAptSearch_resume (Returned r) st) =
       (inputs st)
         \<lparr> totalComplexArea :=
             (if found r \<and> totalArea r > 0 then totalArea r else totalComplexArea (inputs st)),
           householdArea :=
             (if found r \<and> householdArea_found r > 0 then householdArea_found r
              else householdArea (inputs st)) \<rparr>
   \<and> (found r \<and> (totalArea r > 0 \<or> householdArea_found r > 0) \<longrightarrow>
        result (handleAptSearch_resume (Returned r) st)
          = calculate (inputs (handleAptSearch_resume (Returned r) st)))"
proof (intro conjI impI)
  show "inputs (handleConsultAI_resume reply st) = inputs st"
    and "result (handleConsultAI_resume reply st) = result st"
    by (simp_all add: handleConsultAI_resume_def split: Outcome.splits)
  show "inputs (handleAptSearch_resume Threw st) = inputs st"
    and "result (handleAptSearch_resume Threw st) = result st"
    by (simp_all add: handleAptSearch_resume_def Let_def)
  show "inputs (handleAptSearch_resume (Returned (searchApartmentTotalArea ApiFailure)) st)
          = inputs st"
    and "result (handleAptSearch_resume (Returned (searchApartmentTotalArea ApiFailure)) st)
          = result st"
    by (simp_all add: resume_Returned_fields fill_inputs fill_result searchApartmentTotalArea_def)
  show "inputs (handleAptSearch_resume (Returned r) st) =
       (inputs st)
         \<lparr> totalComplexArea :=
             (if found r \<and> totalArea r > 0 then totalArea r else totalComplexArea (inputs st)),
           householdArea :=
             (if found r \<and> householdArea_found r > 0 then householdArea_found r
              else householdArea (inputs st)) \<rparr>"
    by (simp add: resume_Returned_fields fill_inputs)
next
  assume "\<not> (found r \<and> (totalArea r > 0 \<or> householdArea_found r > 0))"
  then show "inputs (handleAptSearch_resume (Returned r) st) = inputs st"
    and "result (handleAptSearch_resume (Returned r) st) = result st"
    by (auto simp add: resume_Returned_fields fill_inputs fill_result)
next
  assume "found r \<and> (totalArea r > 0 \<or> householdArea_found r > 0)"
  then show "result (handleAptSearch_resume (Returned r) st)
          = calculate (inputs (handleAptSearch_resume (Returned r) st))"
    by (simp add: resume_Returned_fields fill_result)
qed

text \<open>
  On the example state: a lookup whose JSON text did not parse changes nothing, and the
  reply that found 200,000 and 59 square metres sets both areas.
\<close>

theorem collaborator_replies_witness:
  "inputs (handleAptSearch_resume (Returned (searchApartmentTotalArea (ApiText None []))) exampleState)
     = rateExample
   \<and> inputs (handleAptSearch_resume (Returned foundReply) exampleState)
     = rateExample \<lparr> totalComplexArea := 200000, householdArea := 59 \<rparr>
   \<and> result (handleAptSearch_resume (Returned foundReply) exampleState)
     = calculate (rateExample \<lparr> totalComplexArea := 200000, householdArea := 59 \<rparr>)"
proof -
  have i: "inputs exampleState = rateExample"
    by (simp add: exampleState_def)
  from collaborator_replies [of "Threw" exampleState "searchApartmentTotalArea (ApiText None [])"]
  have a: "inputs (handleAptSearch_resume (Returned (searchApartmentTotalArea (ApiText None [])))
             exampleState) = rateExample"
    by (simp add: searchApartmentTotalArea_def i)
  from collaborator_replies [of "Threw" exampleState foundReply]
  have b: "inputs (handleAptSearch_resume (Returned foundReply) exampleState)
             = rateExample \<lparr> totalComplexArea := 200000, householdArea := 59 \<rparr>"
    and c: "result (handleAptSearch_resume (Returned foundReply) exampleState)
             = calculate (inputs (handleAptSearch_resume (Returned foundReply) exampleState))"
    by (simp_all add: foundReply_def i)
  show ?thesis
    using a b c by simp
qed

text \<open>
  The claim as the specification states it fails for the area lookup: on the example
  state the reply that found both areas changes the inputs, and the result with them.
\<close>

theorem lookup_changes_inputs_counterexample:
  "inputs (handleAptSearch_resume (Returned foundReply) exampleState) \<noteq> inputs exampleState
   \<and> result (handleAptSearch_resume (Returned foundReply) exampleState) \<noteq> result exampleState
   \<and> totalComplexArea (inputs (handleAptSearch_resume (Returned foundReply) exampleState)) = 200000
   \<and> totalComplexArea (inputs exampleState) = 150000"
proof -
  have i: "inputs (handleAptSearch_resume (Returned foundReply) exampleState)
             = rateExample \<lparr> totalComplexArea := 200000, householdArea := 59 \<rparr>"
    by (simp add: resume_Returned_fields fill_inputs foundReply_def exampleState_def)
  have r: "result (handleAptSearch_resume (Returned foundReply) exampleState)
             = calculate (rateExample \<lparr> totalComplexArea := 200000, householdArea := 59 \<rparr>)"
    unfolding i [symmetric]
    by (simp add: resume_Returned_fields fill_result foundReply_def)
  have r0: "result exampleState = calculate rateExample"
    by (simp add: exampleState_def)
  have p: "periodTargetAmountOf rateExample = Some 2000000000"
    and p': "periodTargetAmountOf (rateExample \<lparr> totalComplexArea := 200000, householdArea := 59 \<rparr>)
               = Some 2000000000"
    by (simp_all add: periodTargetAmountOf_def rateExample_def)
  have "calculate (rateExample \<lparr> totalComplexArea := 200000, householdArea := 59 \<rparr>)
          \<noteq> calculate rateExample"
    by (simp add: calculate_def p p' Let_def) (simp add: rateExample_def)
  moreover have "rateExample \<lparr> totalComplexArea := 200000, householdArea := 59 \<rparr> \<noteq> rateExample"
    by (simp add: rateExample_def)
  ultimately show ?thesis
    by (simp add: i r r0) (simp add: exampleState_def rateExample_def)
qed

end
